theory Spec2Isabelle
  imports Main
begin

section \<open>Values of the host language\<close>

text \<open>
  Route parameters, query parameters and the handler's local variables hold either a
  string or no value (\<open>undefined\<close> or \<open>null\<close>); they are modelled as
  \<open>string option\<close>. A condition \<open>if (x)\<close> on such a value holds for a non-empty string
  only.
\<close>

definition truthy :: "string option \<Rightarrow> bool" where
  "truthy v = (case v of None \<Rightarrow> False | Some s \<Rightarrow> s \<noteq> [])"

text \<open>\<open>x || dflt\<close> on a string or \<open>undefined\<close>.\<close>

definition or_else :: "string option \<Rightarrow> string \<Rightarrow> string" where
  "or_else v dflt = (case v of None \<Rightarrow> dflt | Some s \<Rightarrow> if s = [] then dflt else s)"

text \<open>String concatenation coerces its operand: \<open>'' + undefined\<close> is \<open>'undefined'\<close>.\<close>

definition str_undefined :: "string option \<Rightarrow> string" where
  "str_undefined v = (case v of None \<Rightarrow> ''undefined'' | Some s \<Rightarrow> s)"

text \<open>The same for a variable that was set to \<open>null\<close> when it holds no string.\<close>

definition str_null :: "string option \<Rightarrow> string" where
  "str_null v = (case v of None \<Rightarrow> ''null'' | Some s \<Rightarrow> s)"

text \<open>\<open>_.first\<close>: the first element of a list, \<open>undefined\<close> for an empty one.\<close>

definition first :: "'a list \<Rightarrow> 'a option" where
  "first xs = (case xs of [] \<Rightarrow> None | x # rest \<Rightarrow> Some x)"

datatype error = Error string | ReferenceError string

section \<open>Data model\<close>

record asset =
  asset_id :: string
  asset_filename :: string
  asset_size :: nat
  asset_raw_url :: string

text \<open>A release as the handlers see it (\<open>version\<close> in the source).\<close>

record version =
  version_tag :: string
  version_channel :: string
  version_notes :: string
  version_published_at :: int
  version_platforms :: "asset list"

text \<open>The object passed to \<open>versions.resolve\<close> and \<open>versions.filter\<close>.\<close>

record query =
  q_channel :: "string option"
  q_platform :: "string option"
  q_tag :: string

text \<open>One line of a RELEASES manifest, as \<open>winReleases.parse\<close> returns it.\<close>

record entry =
  entry_sha :: string
  entry_filename :: string
  entry_size :: string
  entry_semver :: string

record useragent =
  isMac :: bool
  isWindows :: bool
  isLinux :: bool
  isLinux64 :: bool

record request =
  req_protocol :: string
  req_host :: string
  req_originalUrl :: string
  params_channel :: "string option"
  params_platform :: "string option"
  params_tag :: "string option"
  params_filename :: "string option"
  params_version :: "string option"
  query_filetype :: "string option"
  query_version :: "string option"
  query_platform :: "string option"
  req_useragent :: useragent

section \<open>Collaborators\<close>

text \<open>
  The handlers of \<open>lib/nuts.js\<close> call modules that are not part of this development
  (\<open>./versions\<close>, \<open>./utils/platforms\<close>, \<open>./utils/notes\<close>, \<open>./utils/win-releases\<close>, the
  backend's base class) and library functions (\<open>url.resolve\<close>, \<open>Date.toISOString\<close>,
  \<open>Buffer.toString\<close>, the interceptors registered through Understudy). They are
  parameters of the model: every theorem below holds for any choice of them.
\<close>

record deps =
  versions_resolve :: "query \<Rightarrow> error + version"
  versions_filter :: "query \<Rightarrow> error + version list"
  platforms_OSX :: string
  platforms_WINDOWS :: string
  platforms_LINUX :: string
  platforms_LINUX_64 :: string
  platforms_detect :: "string \<Rightarrow> string"
  platforms_resolve :: "version \<Rightarrow> string option \<Rightarrow> string option \<Rightarrow> asset option"
  notes_merge :: "version list \<Rightarrow> bool \<Rightarrow> string"
  winReleases_parse :: "string \<Rightarrow> error + entry list"
  winReleases_generate :: "entry list \<Rightarrow> string"
  backend_readAsset :: "asset \<Rightarrow> error + string"
  remote_content :: "string \<Rightarrow> string"
  buffer_toString :: "string \<Rightarrow> string"
  url_resolve :: "string \<Rightarrow> string \<Rightarrow> string"
  toISOString :: "int \<Rightarrow> string"
  before_hooks :: "string \<Rightarrow> request \<times> version \<times> asset \<Rightarrow> error option"
  after_hooks :: "string \<Rightarrow> request \<times> version \<times> asset \<Rightarrow> error option"

section \<open>State and effects\<close>

text \<open>Calls that leave the handler: release resolution and backend reads.\<close>

datatype call =
    Resolve query
  | Filter query
  | GetAssetStream asset
  | ReadAsset asset

datatype body = Text string | Json "(string \<times> string) list"

text \<open>What a handler does to the response object, in order.\<close>

datatype res_action =
    Header string nat
  | Attachment string
  | Status nat
  | Send body
  | Redirect string
  | Pipe string

text \<open>
  The state threaded through a handler: the asset cache (a store from cache key to the
  bytes kept under it), the calls made so far and the response written so far.
\<close>

record state =
  cache :: "string \<rightharpoonup> string"
  calls :: "call list"
  res :: "res_action list"

definition respond :: "res_action \<Rightarrow> state \<Rightarrow> state" where
  "respond a st = st\<lparr>res := res st @ [a]\<rparr>"

definition record_call :: "call \<Rightarrow> state \<Rightarrow> state" where
  "record_call c st = st\<lparr>calls := calls st @ [c]\<rparr>"

text \<open>The resolution queries among the calls made, in order.\<close>

fun resolutions :: "call list \<Rightarrow> query list" where
  "resolutions [] = []"
| "resolutions (Resolve q # cs) = q # resolutions cs"
| "resolutions (c # cs) = resolutions cs"

text \<open>The queries given to \<open>versions.filter\<close> among the calls made, in order.\<close>

fun filters :: "call list \<Rightarrow> query list" where
  "filters [] = []"
| "filters (Filter q # cs) = q # filters cs"
| "filters (c # cs) = filters cs"

text \<open>The assets read through \<open>backend.readAsset\<close> among the calls made, in order.\<close>

fun reads :: "call list \<Rightarrow> asset list" where
  "reads [] = []"
| "reads (ReadAsset a # cs) = a # reads cs"
| "reads (c # cs) = reads cs"

text \<open>The assets fetched from the backend among the calls made, in order.\<close>

fun fetches :: "call list \<Rightarrow> asset list" where
  "fetches [] = []"
| "fetches (GetAssetStream a # cs) = a # fetches cs"
| "fetches (c # cs) = fetches cs"

definition do_resolve :: "deps \<Rightarrow> query \<Rightarrow> state \<Rightarrow> (error + version) \<times> state" where
  "do_resolve d q st = (versions_resolve d q, record_call (Resolve q) st)"

definition do_filter :: "deps \<Rightarrow> query \<Rightarrow> state \<Rightarrow> (error + version list) \<times> state" where
  "do_filter d q st = (versions_filter d q, record_call (Filter q) st)"

definition readAsset :: "deps \<Rightarrow> asset \<Rightarrow> state \<Rightarrow> (error + string) \<times> state" where
  "readAsset d a st = (backend_readAsset d a, record_call (ReadAsset a) st)"

text \<open>
  \<open>GitHubBackend.prototype.getAssetStream\<close>: a request for \<open>asset.raw.url\<close>, wrapped in a
  fulfilled promise; the stream carries what the remote store holds at that address.
\<close>

definition getAssetStream :: "deps \<Rightarrow> asset \<Rightarrow> state \<Rightarrow> string \<times> state" where
  "getAssetStream d a st = (remote_content d (asset_raw_url a), record_call (GetAssetStream a) st)"

text \<open>The three cache operations the handler uses.\<close>

definition cache_has :: "state \<Rightarrow> string \<Rightarrow> bool" where
  "cache_has st k = (cache st k \<noteq> None)"

definition cache_getStream :: "state \<Rightarrow> string \<Rightarrow> error + string" where
  "cache_getStream st k =
     (case cache st k of None \<Rightarrow> Inl (Error ''Key not found'') | Some b \<Rightarrow> Inr b)"

definition cache_set :: "string \<Rightarrow> string \<Rightarrow> state \<Rightarrow> state" where
  "cache_set k b st = st\<lparr>cache := (cache st)(k \<mapsto> b)\<rparr>"

section \<open>The handlers of \<open>lib/nuts.js\<close>\<close>

definition getFullUrl :: "request \<Rightarrow> string" where
  "getFullUrl req = req_protocol req @ ''://'' @ req_host req @ req_originalUrl req"

text \<open>
  \<open>Nuts.prototype.performQ\<close>: the interceptors registered before the hook run first, then
  the work, then the interceptors registered after it; the first failure ends the chain.
\<close>

definition performQ ::
  "deps \<Rightarrow> string \<Rightarrow> request \<times> version \<times> asset \<Rightarrow>
   (state \<Rightarrow> (error + unit) \<times> state) \<Rightarrow> state \<Rightarrow> (error + unit) \<times> state" where
  "performQ d name arg fn st =
     (case before_hooks d name arg of
        Some e \<Rightarrow> (Inl e, st)
      | None \<Rightarrow>
          (case fn st of
             (Inl e, st') \<Rightarrow> (Inl e, st')
           | (Inr u, st') \<Rightarrow>
               (case after_hooks d name arg of
                  Some e \<Rightarrow> (Inl e, st')
                | None \<Rightarrow> (Inr (), st'))))"

text \<open>\<open>Nuts.prototype.serveAsset\<close>.\<close>

definition serveAsset ::
  "deps \<Rightarrow> request \<Rightarrow> version \<Rightarrow> asset \<Rightarrow> state \<Rightarrow> (error + unit) \<times> state" where
  "serveAsset d req version asset st =
     (let cacheKey = asset_id asset in
      performQ d ''download'' (req, version, asset)
        (\<lambda>s.
           let s1 = respond (Header ''Content-Length'' (asset_size asset)) s;
               s2 = respond (Attachment (asset_filename asset)) s1
           in if cache_has s2 cacheKey then
                (case cache_getStream s2 cacheKey of
                   Inl e \<Rightarrow> (Inl e, s2)
                 | Inr stream \<Rightarrow> (Inr (), respond (Pipe stream) s2))
              else
                (case getAssetStream d asset s2 of
                   (stream, s3) \<Rightarrow>
                     (Inr (), respond (Pipe stream) (cache_set cacheKey stream s3))))
        st)"

text \<open>
  The first part of \<open>Nuts.prototype.onDownload\<close>: which platform the resolution query
  carries. With a file name the platform is \<open>null\<close>; without one it is the route
  parameter or, failing that, what the user agent tells.
\<close>

definition download_platform :: "deps \<Rightarrow> request \<Rightarrow> error + string option" where
  "download_platform d req =
     (let platform = params_platform req;
          filename = params_filename req;
          ua = req_useragent req
      in if \<not> truthy filename then
           (let platform =
                  (if \<not> truthy platform then
                     (let p1 = (if isMac ua then Some (platforms_OSX d) else platform);
                          p2 = (if isWindows ua then Some (platforms_WINDOWS d) else p1);
                          p3 = (if isLinux ua then Some (platforms_LINUX d) else p2);
                          p4 = (if isLinux64 ua then Some (platforms_LINUX_64 d) else p3)
                      in p4)
                   else platform)
            in if \<not> truthy platform
               then Inl (Error ''No platform specified and impossible to detect one'')
               else Inr platform)
         else Inr None)"

text \<open>
  The rejection handler after the first resolution (lines 198 to 207). A request that
  names a channel, or a tag other than \<open>latest\<close>, gets the error back. Otherwise the
  handler evaluates \<open>versions.resolve(...)\<close>; no variable \<open>versions\<close> is in scope there
  (the resolver is \<open>that.versions\<close>), so the evaluation raises a reference error and no
  second resolution is made.
\<close>

definition download_fallback ::
  "string option \<Rightarrow> string \<Rightarrow> error \<Rightarrow> error + version" where
  "download_fallback channel tag err =
     (if truthy channel \<or> tag \<noteq> ''latest'' then Inl err
      else Inl (ReferenceError ''versions is not defined''))"

text \<open>The asset of the resolved release that is served (lines 210 to 223).\<close>

definition download_asset ::
  "deps \<Rightarrow> request \<Rightarrow> string option \<Rightarrow> version \<Rightarrow> asset option" where
  "download_asset d req platform version =
     (let filename = params_filename req;
          filetypeWanted = query_filetype req
      in if truthy filename then
           find (\<lambda>a. Some (asset_filename a) = filename) (version_platforms version)
         else
           platforms_resolve d version platform
             (if truthy filetypeWanted then Some (''.'' @ str_undefined filetypeWanted)
              else None))"

definition onDownload :: "deps \<Rightarrow> request \<Rightarrow> state \<Rightarrow> error option \<times> state" where
  "onDownload d req st =
     (let channel = params_channel req;
          tag = or_else (params_tag req) ''latest''
      in case download_platform d req of
           Inl e \<Rightarrow> (Some e, st)
         | Inr platform \<Rightarrow>
             (let channel = (if tag \<noteq> ''latest'' then Some ''*'' else channel) in
              case do_resolve d
                     \<lparr>q_channel = channel, q_platform = platform, q_tag = tag\<rparr> st of
                (r, st1) \<Rightarrow>
                  (case (case r of Inl err \<Rightarrow> download_fallback channel tag err
                                 | Inr v \<Rightarrow> Inr v) of
                     Inl e \<Rightarrow> (Some e, st1)
                   | Inr version \<Rightarrow>
                       (case download_asset d req platform version of
                          None \<Rightarrow>
                            (Some (Error (''No download available for platform ''
                                          @ str_null platform @ '' for version ''
                                          @ version_tag version @ '' (''
                                          @ or_else channel ''beta'' @ '')'')), st1)
                        | Some asset \<Rightarrow>
                            (case serveAsset d req version asset st1 of
                               (Inl e, st2) \<Rightarrow> (Some e, st2)
                             | (Inr u, st2) \<Rightarrow> (None, st2))))))"

text \<open>\<open>Nuts.prototype.onUpdate\<close>.\<close>

definition onUpdate :: "deps \<Rightarrow> request \<Rightarrow> state \<Rightarrow> error option \<times> state" where
  \<open>onUpdate d req st =
     (if \<not> truthy (query_version req) then
        (Some (Error ''Requires "version" parameter''), st)
      else if \<not> truthy (query_platform req) then
        (Some (Error ''Requires "platform" parameter''), st)
      else
        (None, respond (Redirect (''/update/'' @ str_undefined (query_platform req)
                                  @ ''/'' @ str_undefined (query_version req))) st))\<close>

text \<open>\<open>Nuts.prototype.onUpdateOSX\<close>.\<close>

definition onUpdateOSX :: "deps \<Rightarrow> request \<Rightarrow> state \<Rightarrow> error option \<times> state" where
  \<open>onUpdateOSX d req st =
     (let fullUrl = getFullUrl req;
          platform = params_platform req;
          tag = params_version req
      in if \<not> truthy tag then (Some (Error ''Requires "version" parameter''), st)
         else if \<not> truthy platform then (Some (Error ''Requires "platform" parameter''), st)
         else
           (let platform = platforms_detect d (str_undefined platform) in
            case do_filter d
                   \<lparr>q_channel = Some ''*'', q_platform = Some platform,
                    q_tag = ''>='' @ str_undefined tag\<rparr> st of
              (Inl e, st1) \<Rightarrow> (Some e, st1)
            | (Inr versions, st1) \<Rightarrow>
                (case first versions of
                   None \<Rightarrow> (None, respond (Send (Text ''No updates'')) (respond (Status 204) st1))
                 | Some latest \<Rightarrow>
                     if Some (version_tag latest) = tag then
                       (None, respond (Send (Text ''No updates'')) (respond (Status 204) st1))
                     else
                       (let releaseNotes = notes_merge d (butlast versions) False in
                        (None,
                         respond
                           (Send (Json
                              [(''url'', url_resolve d fullUrl
                                           (''/download/version/'' @ version_tag latest @ ''/''
                                            @ platform @ ''?filetype=zip'')),
                               (''name'', version_tag latest),
                               (''notes'', releaseNotes),
                               (''pub_date'', toISOString d (version_published_at latest))]))
                           (respond (Status 200) st1))))))\<close>

text \<open>
  \<open>Nuts.prototype.onUpdateWin\<close>. The rewriting of one manifest entry comes first: its file
  name becomes the address of the entry on this server's download route.
\<close>

definition rewrite_entry :: "deps \<Rightarrow> string \<Rightarrow> entry \<Rightarrow> entry" where
  "rewrite_entry d fullUrl entry =
     entry\<lparr>entry_filename :=
             url_resolve d fullUrl
               (''/download/'' @ entry_semver entry @ ''/'' @ entry_filename entry)\<rparr>"

definition onUpdateWin :: "deps \<Rightarrow> request \<Rightarrow> state \<Rightarrow> error option \<times> state" where
  "onUpdateWin d req st =
     (let fullUrl = getFullUrl req;
          platform = ''win_32'';
          tag = params_version req;
          platform = platforms_detect d platform
      in case do_filter d
                \<lparr>q_channel = Some ''*'', q_platform = Some platform,
                 q_tag = ''>='' @ str_undefined tag\<rparr> st of
           (Inl e, st1) \<Rightarrow> (Some e, st1)
         | (Inr versions, st1) \<Rightarrow>
             (case first versions of
                None \<Rightarrow> (Some (Error ''Version not found''), st1)
              | Some latest \<Rightarrow>
                  (case find (\<lambda>a. asset_filename a = ''RELEASES'') (version_platforms latest) of
                     None \<Rightarrow> (Some (Error ''File not found''), st1)
                   | Some asset \<Rightarrow>
                       (case readAsset d asset st1 of
                          (Inl e, st2) \<Rightarrow> (Some e, st2)
                        | (Inr content, st2) \<Rightarrow>
                            (case winReleases_parse d (buffer_toString d content) of
                               Inl e \<Rightarrow> (Some e, st2)
                             | Inr releases \<Rightarrow>
                                 (let releases = map (rewrite_entry d fullUrl) releases;
                                      output = winReleases_generate d releases
                                  in (None,
                                      respond (Send (Text output))
                                        (respond (Attachment ''RELEASES'')
                                           (respond (Header ''Content-Length'' (length output))
                                              st2)))))))))"

section \<open>Two callers of \<open>serveAsset\<close>\<close>

text \<open>
  On a cache miss \<open>serveAsset\<close> runs in two turns: the first ends when
  \<open>backend.getAssetStream\<close> has been called, the second is the callback given to \<open>then\<close>,
  which stores the stream in the cache and pipes it to the response. Another request may
  be handled between the two. After the first turn a call is either settled (refused by
  an interceptor, or served from the cache) or awaits its callback with the stream
  fetched.
\<close>

datatype progress = Settled "error + unit" | Awaiting string

definition serveAsset_begin ::
  "deps \<Rightarrow> request \<Rightarrow> version \<Rightarrow> asset \<Rightarrow> state \<Rightarrow> progress \<times> state" where
  "serveAsset_begin d req version asset st =
     (let cacheKey = asset_id asset in
      case before_hooks d ''download'' (req, version, asset) of
        Some e \<Rightarrow> (Settled (Inl e), st)
      | None \<Rightarrow>
          (let s1 = respond (Header ''Content-Length'' (asset_size asset)) st;
               s2 = respond (Attachment (asset_filename asset)) s1
           in if cache_has s2 cacheKey then
                (case cache_getStream s2 cacheKey of
                   Inl e \<Rightarrow> (Settled (Inl e), s2)
                 | Inr stream \<Rightarrow>
                     (let s3 = respond (Pipe stream) s2 in
                      case after_hooks d ''download'' (req, version, asset) of
                        Some e \<Rightarrow> (Settled (Inl e), s3)
                      | None \<Rightarrow> (Settled (Inr ()), s3)))
              else
                (case getAssetStream d asset s2 of
                   (stream, s3) \<Rightarrow> (Awaiting stream, s3))))"

definition serveAsset_then ::
  "deps \<Rightarrow> request \<Rightarrow> version \<Rightarrow> asset \<Rightarrow> string \<Rightarrow> state \<Rightarrow> (error + unit) \<times> state" where
  "serveAsset_then d req version asset stream st =
     (let s4 = respond (Pipe stream) (cache_set (asset_id asset) stream st) in
      case after_hooks d ''download'' (req, version, asset) of
        Some e \<Rightarrow> (Inl e, s4)
      | None \<Rightarrow> (Inr (), s4))"

definition serveAsset_resume ::
  "deps \<Rightarrow> request \<Rightarrow> version \<Rightarrow> asset \<Rightarrow> progress \<Rightarrow> state \<Rightarrow> (error + unit) \<times> state" where
  "serveAsset_resume d req version asset p st =
     (case p of
        Settled r \<Rightarrow> (r, st)
      | Awaiting stream \<Rightarrow> serveAsset_then d req version asset stream st)"


section \<open>A sample environment\<close>

text \<open>
  To run the handlers on concrete requests, the collaborators are instantiated over a
  small index of releases. The instance follows the documented behaviour of the modules
  it stands for, in the simplest form that decides the requests used below.
\<close>

fun split_on :: "char \<Rightarrow> string \<Rightarrow> string list" where
  "split_on c [] = [[]]"
| "split_on c (x # xs) =
     (if x = c then [] # split_on c xs
      else (case split_on c xs of [] \<Rightarrow> [[x]] | w # ws \<Rightarrow> (x # w) # ws))"

definition digit_of :: "char \<Rightarrow> nat" where
  "digit_of c = of_char c - 48"

definition number_of :: "string \<Rightarrow> nat" where
  "number_of ds = foldl (\<lambda>n c. 10 * n + digit_of c) 0 ds"

text \<open>The numeric part of a tag: \<open>1.2.0-beta.1\<close> gives \<open>[1, 2, 0]\<close>.\<close>

definition tag_core :: "string \<Rightarrow> nat list" where
  "tag_core t = map number_of (split_on (CHR ''.'') (takeWhile (\<lambda>c. c \<noteq> CHR ''-'') t))"

fun core_less :: "nat list \<Rightarrow> nat list \<Rightarrow> bool" where
  "core_less [] [] = False"
| "core_less [] (y # ys) = True"
| "core_less (x # xs) [] = False"
| "core_less (x # xs) (y # ys) = (x < y \<or> (x = y \<and> core_less xs ys))"

text \<open>
  \<open>tag_at_least t x\<close>: tag \<open>t\<close> satisfies the range \<open>>=x\<close>. A pre-release precedes the
  release with the same numeric part.
\<close>

definition tag_at_least :: "string \<Rightarrow> string \<Rightarrow> bool" where
  "tag_at_least t x =
     (if core_less (tag_core x) (tag_core t) then True
      else if core_less (tag_core t) (tag_core x) then False
      else (t = x \<or> CHR ''-'' \<notin> set t))"

text \<open>The file type of an asset: what follows the last dot of its name.\<close>

definition file_type :: "string \<Rightarrow> string" where
  "file_type f = rev (takeWhile (\<lambda>c. c \<noteq> CHR ''.'') (rev f))"

text \<open>A platform table by file type; the manifest itself counts as a Windows file.\<close>

definition sample_classify :: "string \<Rightarrow> string" where
  "sample_classify f =
     (if f = ''RELEASES'' \<or> file_type f = ''nupkg'' \<or> file_type f = ''exe'' then ''windows_32''
      else if file_type f = ''dmg'' \<or> file_type f = ''zip'' then ''osx''
      else if file_type f = ''deb'' then ''linux_32''
      else ''other'')"

definition sample_detect :: "string \<Rightarrow> string" where
  "sample_detect p =
     (if p = ''win_32'' \<or> p = ''win'' \<or> p = ''windows'' \<or> p = ''windows_32'' then ''windows_32''
      else if p = ''osx'' \<or> p = ''mac'' \<or> p = ''darwin'' then ''osx''
      else if p = ''linux'' \<or> p = ''linux_32'' then ''linux_32''
      else p)"

definition sample_platforms_resolve ::
  "version \<Rightarrow> string option \<Rightarrow> string option \<Rightarrow> asset option" where
  "sample_platforms_resolve v platform wanted =
     find (\<lambda>a. Some (sample_classify (asset_filename a)) = map_option sample_detect platform
                \<and> (case wanted of None \<Rightarrow> True
                    | Some w \<Rightarrow> w = CHR ''.'' # file_type (asset_filename a)))
          (version_platforms v)"

text \<open>
  The releases of an index (newest first) that a query selects: the channel matches
  (\<open>*\<close> for any, \<open>stable\<close> when none is given), the tag satisfies the tag filter
  (\<open>latest\<close>, a range \<open>>=x\<close> or an exact tag) and, with a platform, one asset is for it.
\<close>

definition sample_select :: "version list \<Rightarrow> query \<Rightarrow> version list" where
  "sample_select index q =
     filter (\<lambda>v.
        (if q_channel q = Some ''*'' then True
         else version_channel v = or_else (q_channel q) ''stable'')
        \<and> (if q_tag q = ''latest'' then True
            else if take 2 (q_tag q) = ''>='' then tag_at_least (version_tag v) (drop 2 (q_tag q))
            else version_tag v = q_tag q)
        \<and> (case q_platform q of
              None \<Rightarrow> True
            | Some p \<Rightarrow>
                list_ex (\<lambda>a. sample_classify (asset_filename a) = sample_detect p)
                  (version_platforms v)))
       index"

definition sample_resolve :: "version list \<Rightarrow> query \<Rightarrow> error + version" where
  "sample_resolve index q =
     (case first (sample_select index q) of
        None \<Rightarrow> Inl (Error ''Version not found'')
      | Some v \<Rightarrow> Inr v)"

text \<open>Notes of the releases in the given order, separated by a blank line.\<close>

fun sample_merge :: "version list \<Rightarrow> bool \<Rightarrow> string" where
  "sample_merge [] includeTag = []"
| "sample_merge [v] includeTag =
     (if includeTag then version_tag v @ [CHR 0x0A] else []) @ version_notes v"
| "sample_merge (v # vs) includeTag =
     (if includeTag then version_tag v @ [CHR 0x0A] else []) @ version_notes v
     @ [CHR 0x0A, CHR 0x0A] @ sample_merge vs includeTag"

text \<open>The address of a path on the server that a full address names.\<close>

definition sample_url_resolve :: "string \<Rightarrow> string \<Rightarrow> string" where
  "sample_url_resolve base path =
     (case split_on (CHR ''/'') base of
        scheme # blank # host # rest \<Rightarrow> scheme @ ''//'' @ host @ path
      | other \<Rightarrow> path)"

text \<open>A manifest of one entry, its decoded form and the encoder of entries.\<close>

definition sample_manifest :: string where
  "sample_manifest = ''94689fede03fed7ab59c24337673a27837f0c3ec app-1.2.0-full.nupkg 1004502''"

definition sample_entry :: entry where
  "sample_entry =
     \<lparr>entry_sha = ''94689fede03fed7ab59c24337673a27837f0c3ec'',
      entry_filename = ''app-1.2.0-full.nupkg'',
      entry_size = ''1004502'',
      entry_semver = ''1.2.0''\<rparr>"

definition sample_parse :: "string \<Rightarrow> error + entry list" where
  "sample_parse content =
     (if content = sample_manifest then Inr [sample_entry]
      else Inl (Error ''Invalid RELEASES file''))"

definition sample_generate :: "entry list \<Rightarrow> string" where
  "sample_generate es =
     concat (map (\<lambda>e. entry_sha e @ '' '' @ entry_filename e @ '' ''
                       @ entry_size e @ [CHR 0x0A]) es)"

text \<open>The backend holds the sample manifest behind every asset named \<open>RELEASES\<close>.\<close>

definition sample_readAsset :: "asset \<Rightarrow> error + string" where
  "sample_readAsset a =
     (if asset_filename a = ''RELEASES'' then Inr sample_manifest
      else Inl (Error ''Asset is not readable''))"

text \<open>
  Publication dates are milliseconds since 1970; the table gives the text of the three
  dates the sample releases carry (the first of October, November and December 2015).
\<close>

definition sample_toISOString :: "int \<Rightarrow> string" where
  "sample_toISOString t =
     (if t = 1443657600000 then ''2015-10-01T00:00:00.000Z''
      else if t = 1446336000000 then ''2015-11-01T00:00:00.000Z''
      else if t = 1448928000000 then ''2015-12-01T00:00:00.000Z''
      else ''Invalid Date'')"

definition sample_deps :: "version list \<Rightarrow> deps" where
  "sample_deps index =
     \<lparr>versions_resolve = sample_resolve index,
      versions_filter = (\<lambda>q. Inr (sample_select index q)),
      platforms_OSX = ''osx'',
      platforms_WINDOWS = ''windows'',
      platforms_LINUX = ''linux'',
      platforms_LINUX_64 = ''linux_64'',
      platforms_detect = sample_detect,
      platforms_resolve = sample_platforms_resolve,
      notes_merge = sample_merge,
      winReleases_parse = sample_parse,
      winReleases_generate = sample_generate,
      backend_readAsset = sample_readAsset,
      remote_content = (\<lambda>u. ''bytes of '' @ u),
      buffer_toString = (\<lambda>b. b),
      url_resolve = sample_url_resolve,
      toISOString = sample_toISOString,
      before_hooks = (\<lambda>name arg. None),
      after_hooks = (\<lambda>name arg. None)\<rparr>"

definition osx_zip_120 :: asset where
  "osx_zip_120 =
     \<lparr>asset_id = ''201'', asset_filename = ''app-osx.zip'', asset_size = 7,
      asset_raw_url = ''https://store.example/assets/201''\<rparr>"

definition releases_120 :: asset where
  "releases_120 =
     \<lparr>asset_id = ''202'', asset_filename = ''RELEASES'', asset_size = 70,
      asset_raw_url = ''https://store.example/assets/202''\<rparr>"

definition osx_zip_110 :: asset where
  "osx_zip_110 =
     \<lparr>asset_id = ''101'', asset_filename = ''app-osx.zip'', asset_size = 6,
      asset_raw_url = ''https://store.example/assets/101''\<rparr>"

definition osx_zip_beta :: asset where
  "osx_zip_beta =
     \<lparr>asset_id = ''301'', asset_filename = ''app-osx.zip'', asset_size = 8,
      asset_raw_url = ''https://store.example/assets/301''\<rparr>"

definition v120 :: version where
  "v120 =
     \<lparr>version_tag = ''1.2.0'', version_channel = ''stable'',
      version_notes = ''Faster startup'', version_published_at = 1446336000000,
      version_platforms = [osx_zip_120, releases_120]\<rparr>"

definition v110 :: version where
  "v110 =
     \<lparr>version_tag = ''1.1.0'', version_channel = ''stable'',
      version_notes = ''Bug fixes'', version_published_at = 1443657600000,
      version_platforms = [osx_zip_110]\<rparr>"

definition v130_beta :: version where
  "v130_beta =
     \<lparr>version_tag = ''1.3.0-beta.1'', version_channel = ''beta'',
      version_notes = ''Preview'', version_published_at = 1448928000000,
      version_platforms = [osx_zip_beta]\<rparr>"

definition no_useragent :: useragent where
  "no_useragent = \<lparr>isMac = False, isWindows = False, isLinux = False, isLinux64 = False\<rparr>"

text \<open>A request with no parameter set; the examples fill in what they need.\<close>

definition bare_request :: request where
  "bare_request =
     \<lparr>req_protocol = ''https'', req_host = ''updates.example'', req_originalUrl = ''/'',
      params_channel = None, params_platform = None, params_tag = None,
      params_filename = None, params_version = None,
      query_filetype = None, query_version = None, query_platform = None,
      req_useragent = no_useragent\<rparr>"

definition empty_state :: state where
  "empty_state = \<lparr>cache = Map.empty, calls = [], res = []\<rparr>"

text \<open>Requests on the download routes: by tag and file name, by channel, by tag.\<close>

definition file_request :: "string \<Rightarrow> string \<Rightarrow> request" where
  "file_request tag name =
     bare_request\<lparr>params_tag := Some tag, params_filename := Some name,
                  req_originalUrl := ''/download/'' @ tag @ ''/'' @ name\<rparr>"


definition version_request :: "string \<Rightarrow> string \<Rightarrow> request" where
  "version_request tag platform =
     bare_request\<lparr>params_tag := Some tag, params_platform := Some platform,
                  req_originalUrl := ''/download/version/'' @ tag @ ''/'' @ platform\<rparr>"

text \<open>The update check of a Mac client that runs the given version.\<close>

definition osx_check :: "string \<Rightarrow> request" where
  "osx_check tag =
     bare_request\<lparr>params_platform := Some ''osx'', params_version := Some tag,
                  req_originalUrl := ''/update/osx/'' @ tag\<rparr>"

text \<open>The request of a client of the given platform for the update feed.\<close>

definition feed_request :: "string \<Rightarrow> string \<Rightarrow> request" where
  "feed_request platform tag =
     bare_request\<lparr>params_platform := Some platform, params_version := Some tag,
                  req_originalUrl := ''/update/'' @ platform @ ''/'' @ tag @ ''/RELEASES''\<rparr>"

section \<open>The interface as the specification words it\<close>

text \<open>
  Two parts of the update interface, written after the words of the specification and
  compared with the handlers below. The notes of an update are the merged notes of the
  matching releases, the release with the queried tag excluded.
\<close>

definition spec_update_notes :: "deps \<Rightarrow> string \<Rightarrow> version list \<Rightarrow> string" where
  "spec_update_notes d tag versions =
     notes_merge d (filter (\<lambda>v. version_tag v \<noteq> tag) versions) False"

text \<open>
  The query of the Windows feed, were the platform taken from the request: releases at
  least the current version that match the platform of the request's platform parameter.
\<close>

definition spec_win_query :: "deps \<Rightarrow> request \<Rightarrow> query" where
  "spec_win_query d req =
     \<lparr>q_channel = Some ''*'',
      q_platform = Some (platforms_detect d (str_undefined (params_platform req))),
      q_tag = ''>='' @ str_undefined (params_version req)\<rparr>"

section \<open>Basic facts\<close>

lemma resolutions_append: "resolutions (xs @ ys) = resolutions xs @ resolutions ys"
  by (induction xs rule: resolutions.induct) simp_all

lemma filters_append: "filters (xs @ ys) = filters xs @ filters ys"
  by (induction xs rule: filters.induct) simp_all

lemma reads_append: "reads (xs @ ys) = reads xs @ reads ys"
  by (induction xs rule: reads.induct) simp_all


lemma respond_fields:
  "calls (respond a st) = calls st" "cache (respond a st) = cache st"
  "res (respond a st) = res st @ [a]"
  by (simp_all add: respond_def)

lemma record_call_fields:
  "calls (record_call c st) = calls st @ [c]" "cache (record_call c st) = cache st"
  "res (record_call c st) = res st"
  by (simp_all add: record_call_def)

lemma cache_set_fields:
  "calls (cache_set k b st) = calls st" "cache (cache_set k b st) = (cache st)(k \<mapsto> b)"
  "res (cache_set k b st) = res st"
  by (simp_all add: cache_set_def)

section \<open>The update redirect\<close>

text \<open>
  Claim C4. A request to \<open>/update\<close> whose \<open>version\<close> query parameter is missing (or
  empty) fails with the error \<open>Requires "version" parameter\<close>; one that has a version but
  whose \<open>platform\<close> parameter is missing (or empty) fails with
  \<open>Requires "platform" parameter\<close>. In both cases the state is untouched. With both
  parameters the response is a redirect to \<open>/update/<platform>/<version>\<close>. The handler
  never resolves a release and never calls the backend: the calls recorded are those
  made before.
\<close>

theorem onUpdate_requires_parameters:
  \<open>(\<not> truthy (query_version req) \<longrightarrow>
      onUpdate d req st = (Some (Error ''Requires "version" parameter''), st))
   \<and> (truthy (query_version req) \<and> \<not> truthy (query_platform req) \<longrightarrow>
      onUpdate d req st = (Some (Error ''Requires "platform" parameter''), st))
   \<and> (query_version req = Some v \<and> v \<noteq> [] \<and> query_platform req = Some p \<and> p \<noteq> [] \<longrightarrow>
      onUpdate d req st = (None, respond (Redirect (''/update/'' @ p @ ''/'' @ v)) st))
   \<and> calls (snd (onUpdate d req st)) = calls st\<close>
  by (simp add: onUpdate_def truthy_def str_undefined_def respond_fields)

theorem onUpdate_requires_parameters_witness:
  \<open>onUpdate (sample_deps []) bare_request empty_state
      = (Some (Error ''Requires "version" parameter''), empty_state)
   \<and> onUpdate (sample_deps []) (bare_request\<lparr>query_version := Some ''1.0.0''\<rparr>) empty_state
      = (Some (Error ''Requires "platform" parameter''), empty_state)
   \<and> onUpdate (sample_deps [])
        (bare_request\<lparr>query_version := Some ''1.0.0'', query_platform := Some ''osx''\<rparr>)
        empty_state
      = (None, respond (Redirect ''/update/osx/1.0.0'') empty_state)\<close>
  using onUpdate_requires_parameters
      [where req = bare_request and d = "sample_deps []" and st = empty_state]
    onUpdate_requires_parameters
      [where req = "bare_request\<lparr>query_version := Some ''1.0.0''\<rparr>"
         and d = "sample_deps []" and st = empty_state]
    onUpdate_requires_parameters
      [where req = "bare_request\<lparr>query_version := Some ''1.0.0'',
                                query_platform := Some ''osx''\<rparr>"
         and v = "''1.0.0''" and p = "''osx''" and d = "sample_deps []" and st = empty_state]
  by (simp add: truthy_def bare_request_def)

section \<open>The update check of Mac clients\<close>

lemma select_osx_110:
  "sample_select [v120, v110]
     \<lparr>q_channel = Some ''*'', q_platform = Some ''osx'', q_tag = ''>=1.1.0''\<rparr> = [v120, v110]"
  by code_simp

lemma select_osx_120:
  "sample_select [v120, v110]
     \<lparr>q_channel = Some ''*'', q_platform = Some ''osx'', q_tag = ''>=1.2.0''\<rparr> = [v120]"
  by code_simp

text \<open>
  Claim C5. For a request to \<open>/update/<platform>/<version>\<close> with both parameters, the
  handler asks for the releases with a tag at least the given one, for the classified
  platform, on any channel. If there is none, or the first of them carries the given
  tag, the response is status 204 with \<open>No updates\<close>. Otherwise it is status 200 with a
  JSON object: under \<open>url\<close> the address of \<open>/download/version/<tag>/<platform>?filetype=zip\<close>
  for the first release, under \<open>name\<close> its tag, under \<open>notes\<close> the merged notes and under
  \<open>pub_date\<close> its publication date as \<open>toISOString\<close> gives it.
\<close>

theorem onUpdateOSX_response:
  assumes "params_version req = Some tag" "tag \<noteq> []"
    and "params_platform req = Some p" "p \<noteq> []"
    and "versions_filter d \<lparr>q_channel = Some ''*'', q_platform = Some (platforms_detect d p),
           q_tag = ''>='' @ tag\<rparr> = Inr versions"
  shows
    "(first versions = None \<or> map_option version_tag (first versions) = Some tag \<longrightarrow>
        fst (onUpdateOSX d req st) = None
        \<and> res (snd (onUpdateOSX d req st)) = res st @ [Status 204, Send (Text ''No updates'')])
     \<and> (first versions = Some latest \<and> version_tag latest \<noteq> tag \<longrightarrow>
        fst (onUpdateOSX d req st) = None
        \<and> res (snd (onUpdateOSX d req st)) = res st @
            [Status 200,
             Send (Json
               [(''url'', url_resolve d (getFullUrl req)
                            (''/download/version/'' @ version_tag latest @ ''/''
                             @ platforms_detect d p @ ''?filetype=zip'')),
                (''name'', version_tag latest),
                (''notes'', notes_merge d (butlast versions) False),
                (''pub_date'', toISOString d (version_published_at latest))])])
     \<and> filters (calls (snd (onUpdateOSX d req st))) = filters (calls st) @
          [\<lparr>q_channel = Some ''*'', q_platform = Some (platforms_detect d p),
            q_tag = ''>='' @ tag\<rparr>]"
  using assms
  by (auto simp add: onUpdateOSX_def truthy_def str_undefined_def do_filter_def Let_def
      respond_fields record_call_fields filters_append split: option.splits)

theorem onUpdateOSX_response_witness:
  "fst (onUpdateOSX (sample_deps [v120, v110]) (osx_check ''1.2.0'') empty_state) = None
   \<and> res (snd (onUpdateOSX (sample_deps [v120, v110]) (osx_check ''1.2.0'') empty_state))
       = [Status 204, Send (Text ''No updates'')]
   \<and> fst (onUpdateOSX (sample_deps [v120, v110]) (osx_check ''1.1.0'') empty_state) = None
   \<and> res (snd (onUpdateOSX (sample_deps [v120, v110]) (osx_check ''1.1.0'') empty_state))
       = [Status 200,
          Send (Json
            [(''url'', ''https://updates.example/download/version/1.2.0/osx?filetype=zip''),
             (''name'', ''1.2.0''),
             (''notes'', ''Faster startup''),
             (''pub_date'', ''2015-11-01T00:00:00.000Z'')])]"
proof -
  let ?d = "sample_deps [v120, v110]"
  have det: "platforms_detect ?d ''osx'' = ''osx''"
    by (simp add: sample_deps_def sample_detect_def)
  have f1: "versions_filter ?d \<lparr>q_channel = Some ''*'',
              q_platform = Some (platforms_detect ?d ''osx''), q_tag = ''>='' @ ''1.2.0''\<rparr>
            = Inr [v120]"
    unfolding det by (simp add: sample_deps_def select_osx_120)
  have f2: "versions_filter ?d \<lparr>q_channel = Some ''*'',
              q_platform = Some (platforms_detect ?d ''osx''), q_tag = ''>='' @ ''1.1.0''\<rparr>
            = Inr [v120, v110]"
    unfolding det by (simp add: sample_deps_def select_osx_110)
  have u: "url_resolve ?d (getFullUrl (osx_check ''1.1.0''))
             (''/download/version/'' @ version_tag v120 @ ''/'' @ ''osx'' @ ''?filetype=zip'')
           = ''https://updates.example/download/version/1.2.0/osx?filetype=zip''"
    by code_simp
  have m: "notes_merge ?d (butlast [v120, v110]) False = ''Faster startup''"
    by (simp add: sample_deps_def v120_def)
  have i: "toISOString ?d (version_published_at v120) = ''2015-11-01T00:00:00.000Z''"
    by (simp add: sample_deps_def sample_toISOString_def v120_def)
  have t: "version_tag v120 = ''1.2.0''"
    by (simp add: v120_def)
  note same = onUpdateOSX_response
      [where req = "osx_check ''1.2.0''" and tag = "''1.2.0''" and p = "''osx''"
         and d = ?d and versions = "[v120]" and latest = v120 and st = empty_state]
  note newer = onUpdateOSX_response
      [where req = "osx_check ''1.1.0''" and tag = "''1.1.0''" and p = "''osx''"
         and d = ?d and versions = "[v120, v110]" and latest = v120 and st = empty_state]
  from same f1 have
    "fst (onUpdateOSX ?d (osx_check ''1.2.0'') empty_state) = None
     \<and> res (snd (onUpdateOSX ?d (osx_check ''1.2.0'') empty_state))
         = [Status 204, Send (Text ''No updates'')]"
    by (simp add: osx_check_def first_def t empty_state_def)
  moreover from newer f2 have
    "fst (onUpdateOSX ?d (osx_check ''1.1.0'') empty_state) = None
     \<and> res (snd (onUpdateOSX ?d (osx_check ''1.1.0'') empty_state))
         = [Status 200,
            Send (Json
              [(''url'', ''https://updates.example/download/version/1.2.0/osx?filetype=zip''),
               (''name'', ''1.2.0''),
               (''notes'', ''Faster startup''),
               (''pub_date'', ''2015-11-01T00:00:00.000Z'')])]"
    unfolding det u m i by (simp add: osx_check_def first_def t empty_state_def)
  ultimately show ?thesis by simp
qed

text \<open>
  When the client's own release is the last of the matching ones, leaving the last one
  out is leaving the queried tag out.
\<close>

lemma butlast_drops_queried:
  assumes "versions = newer @ [current]" "version_tag current = tag"
    and "tag \<notin> version_tag ` set newer"
  shows "notes_merge d (butlast versions) False = spec_update_notes d tag versions"
proof -
  have "filter (\<lambda>v. version_tag v \<noteq> tag) newer = newer"
    using assms(3) by (induction newer) auto
  with assms(1,2) show ?thesis
    by (simp add: spec_update_notes_def)
qed

lemma select_osx_100:
  "sample_select [v120, v110]
     \<lparr>q_channel = Some ''*'', q_platform = Some ''osx'', q_tag = ''>=1.0.0''\<rparr> = [v120, v110]"
  by code_simp

text \<open>
  Claim C6. The notes of an update are meant to cover the matching releases without the
  release of the queried tag. The handler leaves out the last matching release, whatever
  its tag. A client on 1.0.0 asks an index that holds 1.2.0 and 1.1.0 and no longer
  1.0.0: both releases match and neither carries the queried tag, so the notes should
  be those of both; the response carries the notes of 1.2.0 only.
\<close>

theorem onUpdateOSX_notes_skip_oldest:
  "versions_filter (sample_deps [v120, v110])
      \<lparr>q_channel = Some ''*'', q_platform = Some ''osx'', q_tag = ''>=1.0.0''\<rparr>
     = Inr [v120, v110]
   \<and> res (snd (onUpdateOSX (sample_deps [v120, v110]) (osx_check ''1.0.0'') empty_state))
     = [Status 200,
        Send (Json
          [(''url'', ''https://updates.example/download/version/1.2.0/osx?filetype=zip''),
           (''name'', ''1.2.0''),
           (''notes'', ''Faster startup''),
           (''pub_date'', ''2015-11-01T00:00:00.000Z'')])]
   \<and> spec_update_notes (sample_deps [v120, v110]) ''1.0.0'' [v120, v110]
     = ''Faster startup'' @ [CHR 0x0A, CHR 0x0A] @ ''Bug fixes''"
proof -
  have a: "versions_filter (sample_deps [v120, v110])
      \<lparr>q_channel = Some ''*'', q_platform = Some ''osx'', q_tag = ''>=1.0.0''\<rparr>
     = Inr [v120, v110]"
    by (simp add: sample_deps_def select_osx_100)
  have b: "res (snd (onUpdateOSX (sample_deps [v120, v110]) (osx_check ''1.0.0'') empty_state))
     = [Status 200,
        Send (Json
          [(''url'', ''https://updates.example/download/version/1.2.0/osx?filetype=zip''),
           (''name'', ''1.2.0''),
           (''notes'', ''Faster startup''),
           (''pub_date'', ''2015-11-01T00:00:00.000Z'')])]"
    by code_simp
  have c: "spec_update_notes (sample_deps [v120, v110]) ''1.0.0'' [v120, v110]
     = ''Faster startup'' @ [CHR 0x0A, CHR 0x0A] @ ''Bug fixes''"
    by code_simp
  from a b c show ?thesis by simp
qed

section \<open>The update feed of Windows clients\<close>

text \<open>
  Claim C7, as the handler has it. The feed is selected for the fixed platform \<open>win_32\<close>
  (classified by \<open>platforms.detect\<close>), on any channel, among the releases at least the
  requested version; the platform parameter of the request is not read, so changing it
  changes nothing. The manifest read is the asset named \<open>RELEASES\<close> of the first such
  release.
\<close>

theorem onUpdateWin_fixed_platform:
  "onUpdateWin d (req\<lparr>params_platform := p\<rparr>) st = onUpdateWin d req st
   \<and> filters (calls (snd (onUpdateWin d req st))) = filters (calls st) @
        [\<lparr>q_channel = Some ''*'', q_platform = Some (platforms_detect d ''win_32''),
          q_tag = ''>='' @ str_undefined (params_version req)\<rparr>]
   \<and> reads (calls (snd (onUpdateWin d req st))) = reads (calls st) @
        (case versions_filter d
                \<lparr>q_channel = Some ''*'', q_platform = Some (platforms_detect d ''win_32''),
                 q_tag = ''>='' @ str_undefined (params_version req)\<rparr> of
           Inl e \<Rightarrow> []
         | Inr versions \<Rightarrow>
             (case first versions of
                None \<Rightarrow> []
              | Some latest \<Rightarrow>
                  (case find (\<lambda>a. asset_filename a = ''RELEASES'') (version_platforms latest) of
                     None \<Rightarrow> []
                   | Some a \<Rightarrow> [a])))"
proof -
  have "onUpdateWin d (req\<lparr>params_platform := p\<rparr>) st = onUpdateWin d req st"
    by (simp add: onUpdateWin_def getFullUrl_def)
  moreover have "filters (calls (snd (onUpdateWin d req st))) = filters (calls st) @
        [\<lparr>q_channel = Some ''*'', q_platform = Some (platforms_detect d ''win_32''),
          q_tag = ''>='' @ str_undefined (params_version req)\<rparr>]"
    by (simp add: onUpdateWin_def do_filter_def readAsset_def Let_def respond_fields
        record_call_fields filters_append split: sum.splits option.splits)
  moreover have "reads (calls (snd (onUpdateWin d req st))) = reads (calls st) @
        (case versions_filter d
                \<lparr>q_channel = Some ''*'', q_platform = Some (platforms_detect d ''win_32''),
                 q_tag = ''>='' @ str_undefined (params_version req)\<rparr> of
           Inl e \<Rightarrow> []
         | Inr versions \<Rightarrow>
             (case first versions of
                None \<Rightarrow> []
              | Some latest \<Rightarrow>
                  (case find (\<lambda>a. asset_filename a = ''RELEASES'') (version_platforms latest) of
                     None \<Rightarrow> []
                   | Some a \<Rightarrow> [a])))"
    by (simp add: onUpdateWin_def do_filter_def readAsset_def Let_def respond_fields
        record_call_fields reads_append split: sum.splits option.splits)
  ultimately show ?thesis by simp
qed

text \<open>
  The claim as worded fails. The index holds 1.3.0-beta.1 with a Mac archive only, 1.2.0
  with a Mac archive and a manifest, and 1.1.0. A request for the feed of platform \<open>osx\<close>
  from version 1.1.0: the releases matching that platform start with 1.3.0-beta.1, which
  has no manifest, while the handler asks for \<open>windows_32\<close> and reads the manifest of
  1.2.0.
\<close>

theorem onUpdateWin_platform_counterexample:
  "spec_win_query (sample_deps [v130_beta, v120, v110]) (feed_request ''osx'' ''1.1.0'')
     = \<lparr>q_channel = Some ''*'', q_platform = Some ''osx'', q_tag = ''>=1.1.0''\<rparr>
   \<and> versions_filter (sample_deps [v130_beta, v120, v110])
        (spec_win_query (sample_deps [v130_beta, v120, v110]) (feed_request ''osx'' ''1.1.0''))
     = Inr [v130_beta, v120, v110]
   \<and> filters (calls (snd (onUpdateWin (sample_deps [v130_beta, v120, v110])
                            (feed_request ''osx'' ''1.1.0'') empty_state)))
     = [\<lparr>q_channel = Some ''*'', q_platform = Some ''windows_32'', q_tag = ''>=1.1.0''\<rparr>]
   \<and> reads (calls (snd (onUpdateWin (sample_deps [v130_beta, v120, v110])
                          (feed_request ''osx'' ''1.1.0'') empty_state)))
     = [releases_120]
   \<and> find (\<lambda>a. asset_filename a = ''RELEASES'') (version_platforms v130_beta) = None"
proof -
  let ?d = "sample_deps [v130_beta, v120, v110]"
  let ?r = "feed_request ''osx'' ''1.1.0''"
  have a: "spec_win_query ?d ?r
     = \<lparr>q_channel = Some ''*'', q_platform = Some ''osx'', q_tag = ''>=1.1.0''\<rparr>"
    by code_simp
  have b: "versions_filter ?d
       \<lparr>q_channel = Some ''*'', q_platform = Some ''osx'', q_tag = ''>=1.1.0''\<rparr>
     = Inr [v130_beta, v120, v110]"
    by code_simp
  have c: "filters (calls (snd (onUpdateWin ?d ?r empty_state)))
     = [\<lparr>q_channel = Some ''*'', q_platform = Some ''windows_32'', q_tag = ''>=1.1.0''\<rparr>]"
    by code_simp
  have e: "reads (calls (snd (onUpdateWin ?d ?r empty_state))) = [releases_120]"
    by code_simp
  have f: "find (\<lambda>a. asset_filename a = ''RELEASES'') (version_platforms v130_beta) = None"
    by code_simp
  from a b c e f show ?thesis by simp
qed

lemma rewrite_entry_fields:
  "entry_sha (rewrite_entry d u e) = entry_sha e"
  "entry_size (rewrite_entry d u e) = entry_size e"
  "entry_semver (rewrite_entry d u e) = entry_semver e"
  "entry_filename (rewrite_entry d u e)
     = url_resolve d u (''/download/'' @ entry_semver e @ ''/'' @ entry_filename e)"
  by (simp_all add: rewrite_entry_def)

lemma select_win_110:
  "sample_select [v120, v110]
     \<lparr>q_channel = Some ''*'', q_platform = Some ''windows_32'', q_tag = ''>=1.1.0''\<rparr> = [v120]"
  by code_simp

lemma sample_served:
  "map (rewrite_entry (sample_deps [v120, v110]) (getFullUrl (feed_request ''win'' ''1.1.0'')))
     [sample_entry]
   = [sample_entry\<lparr>entry_filename :=
        ''https://updates.example/download/1.2.0/app-1.2.0-full.nupkg''\<rparr>]"
  by code_simp

lemma sample_output:
  "winReleases_generate (sample_deps [v120, v110])
     [sample_entry\<lparr>entry_filename :=
        ''https://updates.example/download/1.2.0/app-1.2.0-full.nupkg''\<rparr>]
   = ''94689fede03fed7ab59c24337673a27837f0c3ec ''
     @ ''https://updates.example/download/1.2.0/app-1.2.0-full.nupkg 1004502'' @ [CHR 0x0A]"
  by code_simp

text \<open>
  Claim C8. When the manifest of the selected release is read and decodes, every entry
  goes out with its file name replaced by the address of \<open>/download/<semver>/<filename>\<close>
  resolved against the request's own address, and with its hash and size as they were.
  The encoded list is sent as the attachment \<open>RELEASES\<close>, after a \<open>Content-Length\<close> header
  that carries the length of that output.
\<close>

theorem onUpdateWin_manifest:
  assumes "versions_filter d
             \<lparr>q_channel = Some ''*'', q_platform = Some (platforms_detect d ''win_32''),
              q_tag = ''>='' @ str_undefined (params_version req)\<rparr> = Inr versions"
    and "first versions = Some latest"
    and "find (\<lambda>a. asset_filename a = ''RELEASES'') (version_platforms latest) = Some asset"
    and "backend_readAsset d asset = Inr content"
    and "winReleases_parse d (buffer_toString d content) = Inr entries"
  shows "(let served = map (rewrite_entry d (getFullUrl req)) entries;
              output = winReleases_generate d served
          in fst (onUpdateWin d req st) = None
             \<and> res (snd (onUpdateWin d req st)) = res st @
                  [Header ''Content-Length'' (length output), Attachment ''RELEASES'',
                   Send (Text output)]
             \<and> map entry_sha served = map entry_sha entries
             \<and> map entry_size served = map entry_size entries
             \<and> map entry_filename served
                  = map (\<lambda>e. url_resolve d (getFullUrl req)
                                (''/download/'' @ entry_semver e @ ''/'' @ entry_filename e))
                      entries)"
  using assms
  by (simp add: onUpdateWin_def do_filter_def readAsset_def Let_def respond_fields
      record_call_fields rewrite_entry_fields comp_def)

theorem onUpdateWin_manifest_witness:
  "fst (onUpdateWin (sample_deps [v120, v110]) (feed_request ''win'' ''1.1.0'') empty_state) = None
   \<and> res (snd (onUpdateWin (sample_deps [v120, v110]) (feed_request ''win'' ''1.1.0'')
                  empty_state))
     = [Header ''Content-Length'' 109, Attachment ''RELEASES'',
        Send (Text (''94689fede03fed7ab59c24337673a27837f0c3ec ''
          @ ''https://updates.example/download/1.2.0/app-1.2.0-full.nupkg 1004502''
          @ [CHR 0x0A]))]"
proof -
  let ?d = "sample_deps [v120, v110]"
  let ?r = "feed_request ''win'' ''1.1.0''"
  have f: "versions_filter ?d
             \<lparr>q_channel = Some ''*'', q_platform = Some (platforms_detect ?d ''win_32''),
              q_tag = ''>='' @ str_undefined (params_version ?r)\<rparr> = Inr [v120]"
    by (simp add: sample_deps_def sample_detect_def feed_request_def str_undefined_def
        select_win_110)
  have l: "first [v120] = Some v120"
    by (simp add: first_def)
  have a: "find (\<lambda>a. asset_filename a = ''RELEASES'') (version_platforms v120)
           = Some releases_120"
    by (simp add: v120_def osx_zip_120_def releases_120_def)
  have c: "backend_readAsset ?d releases_120 = Inr sample_manifest"
    by (simp add: sample_deps_def sample_readAsset_def releases_120_def)
  have p: "winReleases_parse ?d (buffer_toString ?d sample_manifest) = Inr [sample_entry]"
    by (simp add: sample_deps_def sample_parse_def)
  from onUpdateWin_manifest [where st = empty_state, OF f l a c p]
  show ?thesis
    unfolding Let_def sample_served sample_output
    by (simp add: empty_state_def)
qed

section \<open>Serving an asset\<close>

lemma serveAsset_resolutions:
  "resolutions (calls (snd (serveAsset d req version asset st))) = resolutions (calls st)"
  by (simp add: serveAsset_def performQ_def getAssetStream_def cache_getStream_def
      cache_has_def Let_def respond_fields record_call_fields cache_set_fields
      resolutions_append split: option.splits sum.splits prod.splits)

text \<open>
  Claim C3. Serving looks the asset up in the cache under its id. With an entry there,
  the response carries the cached bytes, no call leaves the handler and the cache stays
  as it is. With no entry, the asset is fetched from the backend once, the fetched bytes
  go to the response and the cache holds them under the asset's id afterwards. (The
  interceptors before the \<open>download\<close> hook must let the request through.)
\<close>

theorem serveAsset_keyed_by_id:
  assumes "before_hooks d ''download'' (req, version, asset) = None"
  shows
    "(cache st (asset_id asset) = Some bytes \<longrightarrow>
        res (snd (serveAsset d req version asset st)) = res st @
          [Header ''Content-Length'' (asset_size asset), Attachment (asset_filename asset),
           Pipe bytes]
        \<and> calls (snd (serveAsset d req version asset st)) = calls st
        \<and> cache (snd (serveAsset d req version asset st)) = cache st)
     \<and> (cache st (asset_id asset) = None \<longrightarrow>
        res (snd (serveAsset d req version asset st)) = res st @
          [Header ''Content-Length'' (asset_size asset), Attachment (asset_filename asset),
           Pipe (remote_content d (asset_raw_url asset))]
        \<and> calls (snd (serveAsset d req version asset st)) = calls st @ [GetAssetStream asset]
        \<and> cache (snd (serveAsset d req version asset st))
            = (cache st)(asset_id asset \<mapsto> remote_content d (asset_raw_url asset)))"
  using assms
  by (simp add: serveAsset_def performQ_def getAssetStream_def cache_getStream_def
      cache_has_def Let_def respond_fields record_call_fields cache_set_fields
      split: option.splits)

theorem serveAsset_keyed_by_id_witness:
  "res (snd (serveAsset (sample_deps [v120]) bare_request v120 osx_zip_120
               (empty_state\<lparr>cache := [''201'' \<mapsto> ''kept bytes'']\<rparr>)))
     = [Header ''Content-Length'' 7, Attachment ''app-osx.zip'', Pipe ''kept bytes'']
   \<and> calls (snd (serveAsset (sample_deps [v120]) bare_request v120 osx_zip_120
                   (empty_state\<lparr>cache := [''201'' \<mapsto> ''kept bytes'']\<rparr>))) = []
   \<and> res (snd (serveAsset (sample_deps [v120]) bare_request v120 osx_zip_120 empty_state))
     = [Header ''Content-Length'' 7, Attachment ''app-osx.zip'',
        Pipe ''bytes of https://store.example/assets/201'']
   \<and> calls (snd (serveAsset (sample_deps [v120]) bare_request v120 osx_zip_120 empty_state))
     = [GetAssetStream osx_zip_120]
   \<and> cache (snd (serveAsset (sample_deps [v120]) bare_request v120 osx_zip_120 empty_state))
     = [''201'' \<mapsto> ''bytes of https://store.example/assets/201'']"
proof -
  let ?d = "sample_deps [v120]"
  have h: "before_hooks ?d ''download'' (bare_request, v120, osx_zip_120) = None"
    by (simp add: sample_deps_def)
  note hit = serveAsset_keyed_by_id
      [where st = "empty_state\<lparr>cache := [''201'' \<mapsto> ''kept bytes'']\<rparr>"
         and bytes = "''kept bytes''", OF h]
  note miss = serveAsset_keyed_by_id [where st = empty_state, OF h]
  from hit miss show ?thesis
    by (simp add: empty_state_def osx_zip_120_def sample_deps_def)
qed

text \<open>
  Hence a second request for the same id, made after the first was served, fetches
  nothing, whatever else differs between the two asset objects.
\<close>

lemma serveAsset_then_cached:
  assumes "before_hooks d ''download'' (req, version, asset) = None"
    and "before_hooks d ''download'' (req', version', asset') = None"
    and "asset_id asset' = asset_id asset"
  shows "fetches (calls (snd (serveAsset d req' version' asset'
                                (snd (serveAsset d req version asset st)))))
         = fetches (calls (snd (serveAsset d req version asset st)))"
  using assms
  by (simp add: serveAsset_def performQ_def getAssetStream_def cache_getStream_def
      cache_has_def Let_def respond_fields record_call_fields cache_set_fields
      split: option.splits)

section \<open>Callers at the same time\<close>

text \<open>The two turns, run one after the other, are \<open>serveAsset\<close>.\<close>

lemma split_is_serveAsset:
  "serveAsset d req version asset st =
     (case serveAsset_begin d req version asset st of
        (p, s) \<Rightarrow> serveAsset_resume d req version asset p s)"
  by (simp add: serveAsset_def performQ_def serveAsset_begin_def serveAsset_resume_def
      serveAsset_then_def Let_def getAssetStream_def
      split: option.splits sum.splits prod.splits)




section \<open>Downloads\<close>

lemma download_platform_filename:
  "truthy (params_filename req) \<Longrightarrow> download_platform d req = Inr None"
  by (simp add: download_platform_def)

lemma download_platform_channel:
  "download_platform d (req\<lparr>params_channel := c\<rparr>) = download_platform d req"
  by (simp add: download_platform_def)

lemma download_fallback_fails: "download_fallback channel tag err \<noteq> Inr v"
  by (simp add: download_fallback_def)

lemma serveAsset_resolutions_result:
  "serveAsset d req version asset st = (r, st') \<Longrightarrow>
     resolutions (calls st') = resolutions (calls st)"
  using serveAsset_resolutions [of d req version asset st] by simp

lemma onDownload_resolutions:
  "resolutions (calls (snd (onDownload d req st))) = resolutions (calls st) @
     (case download_platform d req of
        Inl e \<Rightarrow> []
      | Inr platform \<Rightarrow>
          [\<lparr>q_channel = (if or_else (params_tag req) ''latest'' \<noteq> ''latest'' then Some ''*''
                          else params_channel req),
            q_platform = platform,
            q_tag = or_else (params_tag req) ''latest''\<rparr>])"
proof (cases "download_platform d req")
  case (Inl e)
  then show ?thesis
    by (simp add: onDownload_def Let_def)
next
  case (Inr platform)
  then show ?thesis
    by (auto simp add: onDownload_def do_resolve_def Let_def record_call_fields
        resolutions_append download_fallback_fails
        split: sum.split option.split prod.split
        dest!: serveAsset_resolutions_result)
qed

text \<open>
  Claim C9. A download request with a file name resolves the release with no platform in
  the query (one resolution, its platform field empty), and the asset served is the
  first asset of the resolved release whose file name equals the requested one; if the
  release has no such asset the request fails and nothing is served.
\<close>

theorem onDownload_by_filename:
  assumes "params_filename req = Some name" "name \<noteq> []"
  shows
    "(let tag = or_else (params_tag req) ''latest'';
          channel = (if tag \<noteq> ''latest'' then Some ''*'' else params_channel req);
          q = \<lparr>q_channel = channel, q_platform = None, q_tag = tag\<rparr>
      in resolutions (calls (snd (onDownload d req st))) = resolutions (calls st) @ [q]
         \<and> (versions_resolve d q = Inr version
              \<and> find (\<lambda>a. asset_filename a = name) (version_platforms version) = Some asset
            \<longrightarrow> onDownload d req st =
                  (case serveAsset d req version asset (record_call (Resolve q) st) of
                     (Inl e, st') \<Rightarrow> (Some e, st')
                   | (Inr u, st') \<Rightarrow> (None, st')))
         \<and> (versions_resolve d q = Inr version
              \<and> find (\<lambda>a. asset_filename a = name) (version_platforms version) = None
            \<longrightarrow> onDownload d req st =
                  (Some (Error (''No download available for platform null for version ''
                                @ version_tag version @ '' ('' @ or_else channel ''beta''
                                @ '')'')),
                   record_call (Resolve q) st)))"
proof -
  have p: "download_platform d req = Inr None"
    using assms by (simp add: download_platform_filename truthy_def)
  have f: "download_asset d req None version
           = find (\<lambda>a. asset_filename a = name) (version_platforms version)"
    using assms by (simp add: download_asset_def truthy_def)
  show ?thesis
    using p f
    by (simp add: onDownload_resolutions)
      (auto simp add: onDownload_def do_resolve_def Let_def str_null_def
        split: sum.splits option.splits prod.splits)
qed

lemma resolve_120_any:
  "sample_resolve [v120, v110] \<lparr>q_channel = Some ''*'', q_platform = None, q_tag = ''1.2.0''\<rparr>
   = Inr v120"
  by code_simp

theorem onDownload_by_filename_witness:
  "resolutions (calls (snd (onDownload (sample_deps [v120, v110])
                              (file_request ''1.2.0'' ''RELEASES'') empty_state)))
     = [\<lparr>q_channel = Some ''*'', q_platform = None, q_tag = ''1.2.0''\<rparr>]
   \<and> onDownload (sample_deps [v120, v110]) (file_request ''1.2.0'' ''RELEASES'') empty_state
     = (case serveAsset (sample_deps [v120, v110]) (file_request ''1.2.0'' ''RELEASES'')
               v120 releases_120
               (record_call
                  (Resolve \<lparr>q_channel = Some ''*'', q_platform = None, q_tag = ''1.2.0''\<rparr>)
                  empty_state) of
          (Inl e, st') \<Rightarrow> (Some e, st')
        | (Inr u, st') \<Rightarrow> (None, st'))
   \<and> onDownload (sample_deps [v120, v110]) (file_request ''1.2.0'' ''app.deb'') empty_state
     = (Some (Error ''No download available for platform null for version 1.2.0 (*)''),
        record_call
          (Resolve \<lparr>q_channel = Some ''*'', q_platform = None, q_tag = ''1.2.0''\<rparr>)
          empty_state)"
proof -
  let ?d = "sample_deps [v120, v110]"
  have r: "versions_resolve ?d
             \<lparr>q_channel = Some ''*'', q_platform = None, q_tag = ''1.2.0''\<rparr> = Inr v120"
    by (simp add: sample_deps_def resolve_120_any)
  have a: "find (\<lambda>a. asset_filename a = ''RELEASES'') (version_platforms v120)
           = Some releases_120"
    by (simp add: v120_def osx_zip_120_def releases_120_def)
  have b: "find (\<lambda>a. asset_filename a = ''app.deb'') (version_platforms v120) = None"
    by (simp add: v120_def osx_zip_120_def releases_120_def)
  have t: "version_tag v120 = ''1.2.0''"
    by (simp add: v120_def)
  note found = onDownload_by_filename
      [where req = "file_request ''1.2.0'' ''RELEASES''" and name = "''RELEASES''"
         and d = ?d and st = empty_state and version = v120 and asset = releases_120]
  note missing = onDownload_by_filename
      [where req = "file_request ''1.2.0'' ''app.deb''" and name = "''app.deb''"
         and d = ?d and st = empty_state and version = v120]
  from found have
    "resolutions (calls (snd (onDownload ?d (file_request ''1.2.0'' ''RELEASES'') empty_state)))
       = [\<lparr>q_channel = Some ''*'', q_platform = None, q_tag = ''1.2.0''\<rparr>]"
    by (simp add: file_request_def or_else_def empty_state_def Let_def)
  moreover from found r a have
    "onDownload ?d (file_request ''1.2.0'' ''RELEASES'') empty_state
       = (case serveAsset ?d (file_request ''1.2.0'' ''RELEASES'') v120 releases_120
                 (record_call
                    (Resolve \<lparr>q_channel = Some ''*'', q_platform = None, q_tag = ''1.2.0''\<rparr>)
                    empty_state) of
            (Inl e, st') \<Rightarrow> (Some e, st')
          | (Inr u, st') \<Rightarrow> (None, st'))"
    by (simp add: file_request_def or_else_def Let_def)
  moreover from missing r b have
    "onDownload ?d (file_request ''1.2.0'' ''app.deb'') empty_state
       = (Some (Error ''No download available for platform null for version 1.2.0 (*)''),
          record_call
            (Resolve \<lparr>q_channel = Some ''*'', q_platform = None, q_tag = ''1.2.0''\<rparr>)
            empty_state)"
    by (simp add: file_request_def or_else_def t Let_def)
  ultimately show ?thesis by simp
qed

text \<open>
  Claim C10. With a tag other than \<open>latest\<close>, the one resolution of a download request
  carries the wildcard channel and the requested tag; the channel of the request does
  not reach the query, so requests that differ in their channel only resolve alike.
\<close>

theorem onDownload_concrete_tag:
  assumes "params_tag req = Some tag" "tag \<noteq> []" "tag \<noteq> ''latest''"
  shows
    "resolutions (calls (snd (onDownload d req st))) = resolutions (calls st) @
       (case download_platform d req of
          Inl e \<Rightarrow> []
        | Inr platform \<Rightarrow> [\<lparr>q_channel = Some ''*'', q_platform = platform, q_tag = tag\<rparr>])
     \<and> resolutions (calls (snd (onDownload d (req\<lparr>params_channel := c\<rparr>) st)))
       = resolutions (calls (snd (onDownload d req st)))"
  using assms
  by (simp add: onDownload_resolutions download_platform_channel or_else_def
      split: sum.split)

theorem onDownload_concrete_tag_witness:
  "resolutions (calls (snd (onDownload (sample_deps [v120, v110])
                              (version_request ''1.1.0'' ''osx'') empty_state)))
     = [\<lparr>q_channel = Some ''*'', q_platform = Some ''osx'', q_tag = ''1.1.0''\<rparr>]
   \<and> resolutions (calls (snd (onDownload (sample_deps [v120, v110])
                                ((version_request ''1.1.0'' ''osx'')
                                   \<lparr>params_channel := Some ''beta''\<rparr>) empty_state)))
     = [\<lparr>q_channel = Some ''*'', q_platform = Some ''osx'', q_tag = ''1.1.0''\<rparr>]"
proof -
  let ?d = "sample_deps [v120, v110]"
  have p: "download_platform ?d (version_request ''1.1.0'' ''osx'') = Inr (Some ''osx'')"
    by (simp add: download_platform_def version_request_def bare_request_def truthy_def)
  from onDownload_concrete_tag
      [where req = "version_request ''1.1.0'' ''osx''" and tag = "''1.1.0''" and d = ?d
         and st = empty_state and c = "Some ''beta''"] p
  show ?thesis
    by (simp add: version_request_def empty_state_def)
qed





end
